theory Spec2Isabelle
  imports Complex_Main
begin

section \<open>JavaScript values of the callback context\<close>

text \<open>
  The numeric fields of the callback context (\<open>retry\<close>, \<open>successfulCalls\<close>,
  \<open>serverTiming\<close>) are optional JavaScript numbers. The handlers apply \<open>!\<close>, \<open>||\<close>,
  \<open>&&\<close>, \<open>+ 1\<close>, \<open>/ 2\<close> and the relational operators to them without checking that
  they are present, so the model keeps the values on which these operators differ:
  \<open>Undef\<close> (the field is absent), \<open>Null\<close>, \<open>NaN\<close> (what \<open>undefined + 1\<close> yields) and
  the integral numbers \<open>Num n\<close>.
\<close>

datatype jsval = Undef | Null | NaN | Num int

text \<open>ToBoolean: \<open>undefined\<close>, \<open>null\<close>, \<open>NaN\<close> and \<open>0\<close> are falsy.\<close>

fun truthy :: "jsval \<Rightarrow> bool" where
  "truthy Undef = False"
| "truthy Null = False"
| "truthy NaN = False"
| "truthy (Num n) = (n \<noteq> 0)"

text \<open>ToNumber; \<open>None\<close> stands for NaN.\<close>

fun toNumber :: "jsval \<Rightarrow> int option" where
  "toNumber Undef = None"
| "toNumber Null = Some 0"
| "toNumber NaN = None"
| "toNumber (Num n) = Some n"

text \<open>\<open>a || b\<close>\<close>

definition js_or :: "jsval \<Rightarrow> jsval \<Rightarrow> jsval" where
  "js_or a b = (if truthy a then a else b)"

text \<open>\<open>a < b\<close>, \<open>a <= b\<close>, \<open>a > b\<close>: false as soon as one side is NaN.\<close>

definition js_lt :: "jsval \<Rightarrow> jsval \<Rightarrow> bool" where
  "js_lt a b = (case toNumber a of None \<Rightarrow> False
                | Some x \<Rightarrow> (case toNumber b of None \<Rightarrow> False | Some y \<Rightarrow> x < y))"

definition js_le :: "jsval \<Rightarrow> jsval \<Rightarrow> bool" where
  "js_le a b = (case toNumber a of None \<Rightarrow> False
                | Some x \<Rightarrow> (case toNumber b of None \<Rightarrow> False | Some y \<Rightarrow> x \<le> y))"

definition js_gt :: "jsval \<Rightarrow> jsval \<Rightarrow> bool" where
  "js_gt a b = (case toNumber a of None \<Rightarrow> False
                | Some x \<Rightarrow> (case toNumber b of None \<Rightarrow> False | Some y \<Rightarrow> y < x))"

text \<open>\<open>a + 1\<close> on a non-string operand.\<close>

definition js_plus1 :: "jsval \<Rightarrow> jsval" where
  "js_plus1 a = (case toNumber a of None \<Rightarrow> NaN | Some x \<Rightarrow> Num (x + 1))"

text \<open>
  \<open>Math.pow(2, k)\<close> for an integer \<open>k\<close>. Delays are computed over the real numbers:
  the model has neither the rounding nor the overflow of doubles.
\<close>

definition pow2 :: "int \<Rightarrow> real" where
  "pow2 k = (if 0 \<le> k then 2 ^ nat k else 1 / 2 ^ nat (- k))"

text \<open>\<open>Math.pow(2, Math.floor(a / 2))\<close>; \<open>None\<close> stands for NaN.\<close>

definition pow2_floor_half :: "jsval \<Rightarrow> real option" where
  "pow2_floor_half a = (case toNumber a of None \<Rightarrow> None | Some x \<Rightarrow> Some (pow2 (x div 2)))"

section \<open>Callback context, progress events, faults\<close>

text \<open>
  \<open>RetryableCallbackContext\<close> and \<open>EventuallyConsistentCallbackContext\<close>: every field is
  optional. An object literal that leaves a field out has \<open>Undef\<close> (\<open>None\<close> for the flag)
  there.
\<close>

record callbackContext =
  retry :: jsval
  successfulCalls :: jsval
  serverTiming :: jsval
  operationCompleted :: "bool option"

definition emptyContext :: callbackContext where
  "emptyContext = \<lparr>retry = Undef, successfulCalls = Undef, serverTiming = Undef,
                   operationCompleted = None\<rparr>"

text \<open>
  The exceptions of the provider library that the handlers raise or test for, by class;
  \<open>OtherError c\<close> is any other exception, carrying \<open>c\<close> as its \<open>errorCode\<close>.
\<close>

datatype exn = NotFound | AlreadyExists | ServiceInternalError | NotStabilized
  | OtherError string

fun errorCode :: "exn \<Rightarrow> string" where
  "errorCode NotFound = ''NotFound''"
| "errorCode AlreadyExists = ''AlreadyExists''"
| "errorCode ServiceInternalError = ''ServiceInternalError''"
| "errorCode NotStabilized = ''NotStabilized''"
| "errorCode (OtherError c) = c"

text \<open>
  Modelled from the spec: the error type of a failed Gateway call
  (\<open>AxiosError<ApiErrorResponse>\<close>, declared in the absent dynatrace-client) is "a transport
  fault carrying an HTTP-like status code and a vendor-supplied semantic error code";
  \<open>status\<close> is what the handler reads back from the JSON copy of the error,
  \<open>vendorInternal\<close> says that the vendor code indicates an internal failure.
\<close>

record fault =
  status :: "int option"
  vendorInternal :: bool

text \<open>
  What a \<open>catch\<close> block of a handler can receive: the fault of a Gateway call, or an
  exception that the handler itself raised inside the \<open>try\<close> block.
\<close>

datatype thrown = Transport fault | Raised exn

text \<open>\<open>JSON.parse(JSON.stringify(e)).status\<close>: a library exception has no such field.\<close>

fun jsonStatus :: "thrown \<Rightarrow> int option" where
  "jsonStatus (Transport f) = status f"
| "jsonStatus (Raised e) = None"

text \<open>
  The response of a successful Gateway call: \<open>payload\<close> is \<open>from.data\<close> (\<open>None\<close> when
  falsy), \<open>timing\<close> the timing marker that the server sent with it.
\<close>

record 'd response =
  payload :: "'d option"
  timing :: jsval

text \<open>
  Modelled from the spec: \<open>getServerTiming\<close>, a method of the absent base class, extracts
  "a server-provided timing/version marker from the response".
\<close>

definition getServerTiming :: "'d response \<Rightarrow> jsval" where
  "getServerTiming getResponse = timing getResponse"

text \<open>
  \<open>callbackDelaySeconds\<close> of an in-progress event: not set on the builder, set to NaN, or
  set to a number of seconds.
\<close>

datatype delay = NoDelay | NaNDelay | Seconds real

text \<open>
  The result of one handler invocation: a progress event, the exception the handler
  throws to the host (\<open>Failed\<close>), or \<open>NoEvent\<close> when the handler returns \<open>undefined\<close>.
\<close>

datatype 'm outcome =
    InProgress 'm callbackContext delay
  | Success "'m option"
  | Failed exn
  | NoEvent

section \<open>The Gateway\<close>

text \<open>
  The handlers reach the vendor API through \<open>get\<close>, \<open>create\<close>, \<open>update\<close> and \<open>delete\<close>.
  The model threads a gateway state through a handler: \<open>answer g k\<close> is the reply to the
  \<open>k\<close>-th request made on \<open>g\<close> (\<open>Inl\<close> a fault, \<open>Inr\<close> a response; the response of
  \<open>delete\<close> is ignored), \<open>issued g\<close> the requests made so far, oldest first.
\<close>

datatype call = CallGet | CallCreate | CallUpdate | CallDelete

record 'd gateway =
  answer :: "nat \<Rightarrow> fault + 'd response"
  issued :: "call list"

definition gw_call :: "call \<Rightarrow> 'd gateway \<Rightarrow> (fault + 'd response) \<times> 'd gateway" where
  "gw_call c g = (answer g (length (issued g)), g\<lparr>issued := issued g @ [c]\<rparr>)"

section \<open>The resource\<close>

text \<open>
  What the resource class inherits or imports from other modules, taken as parameters:
  \<open>processRequestException\<close> (a method of the base class) turns what was caught into the
  exception it throws, \<open>None\<close> when it returns without throwing; \<open>ingest\<close> stands for the
  \<open>Transformer\<close> pipeline and the \<open>ResourceModel\<close> constructor of \<open>setModelFrom\<close>.
\<close>

record ('m, 'd) base =
  processRequestException :: "thrown \<Rightarrow> exn option"
  ingest :: "'m \<Rightarrow> 'd \<Rightarrow> 'm"

definition maxRetries :: int where
  "maxRetries = 10"

definition stabilizationRetries :: int where
  "stabilizationRetries = 5"

definition setModelFrom :: "('m, 'd) base \<Rightarrow> 'm \<Rightarrow> 'd response \<Rightarrow> 'm" where
  "setModelFrom b model from = (case payload from of None \<Rightarrow> model
                                | Some d \<Rightarrow> ingest b model d)"

text \<open>
  \<open>callbackDelaySeconds(maxDelay * Math.random())\<close> with
  \<open>maxDelay = Math.pow(2, Math.floor(r / 2)) * Math.random()\<close>; \<open>u1\<close> and \<open>u2\<close> are the two
  values \<open>Math.random()\<close> returns, in the order of the calls.
\<close>

definition backoff :: "jsval \<Rightarrow> real \<Rightarrow> real \<Rightarrow> delay" where
  "backoff r u1 u2 = (case pow2_floor_half r of None \<Rightarrow> NaNDelay
                      | Some p \<Rightarrow> Seconds (p * u1 * u2))"

definition processRequestExceptionWithRetryableErrors ::
  "('m, 'd) base \<Rightarrow> thrown \<Rightarrow> 'm \<Rightarrow> callbackContext \<Rightarrow> string list \<Rightarrow> real \<Rightarrow> real
     \<Rightarrow> 'm outcome" where
  "processRequestExceptionWithRetryableErrors b e model ctx retryableErrorsList u1 u2 =
     (case processRequestException b e of
        None \<Rightarrow> NoEvent
      | Some x \<Rightarrow>
          if errorCode x \<in> set retryableErrorsList then
            (let r = js_or (retry ctx) (Num 1) in
             InProgress model
               \<lparr>retry = r, successfulCalls = Undef, serverTiming = Undef,
                operationCompleted = None\<rparr>
               (backoff r u1 u2))
          else Failed x)"

text \<open>
  \<open>createHandler\<close>. \<open>desired\<close> is \<open>newModel(request.desiredResourceState)\<close>. A resolved
  \<open>get\<close> yields a response object, which is truthy, so \<open>if (getResult)\<close> raises
  \<open>AlreadyExists\<close> inside the \<open>try\<close> block, where the \<open>catch\<close> receives it.
\<close>

definition createHandler ::
  "('m, 'd) base \<Rightarrow> 'm \<Rightarrow> callbackContext \<Rightarrow> real \<Rightarrow> real \<Rightarrow> 'd gateway
     \<Rightarrow> 'm outcome \<times> 'd gateway" where
  "createHandler b desired ctx u1 u2 g =
     (if \<not> truthy (retry ctx) then
        (case gw_call CallGet g of (getResult, g1) \<Rightarrow>
           (let e1 = (case getResult of Inr existing \<Rightarrow> Raised AlreadyExists
                      | Inl f \<Rightarrow> Transport f) in
            if jsonStatus e1 \<noteq> Some 404 \<and> jsonStatus e1 \<noteq> Some 400 then
              (processRequestExceptionWithRetryableErrors b e1 desired ctx
                 [''ServiceInternalError''] u1 u2, g1)
            else
              (case gw_call CallCreate g1 of
                 (Inr data, g2) \<Rightarrow>
                   (InProgress (setModelFrom b desired data)
                      \<lparr>retry = Num 1, successfulCalls = Undef, serverTiming = Undef,
                       operationCompleted = None\<rparr>
                      (backoff (Num 1) u1 u2), g2)
               | (Inl e, g2) \<Rightarrow>
                   (processRequestExceptionWithRetryableErrors b (Transport e) desired ctx
                      [''NotFound'', ''ServiceInternalError''] u1 u2, g2))))
      else
        (case gw_call CallGet g of
           (Inr data, g1) \<Rightarrow>
             (let sc = js_or (successfulCalls ctx) (Num 0) in
              if js_lt sc (Num stabilizationRetries) \<and> js_le (retry ctx) (Num maxRetries)
              then
                (InProgress desired
                   \<lparr>retry = retry ctx, successfulCalls = js_plus1 (successfulCalls ctx),
                    serverTiming = Undef, operationCompleted = None\<rparr>
                   (backoff (retry ctx) u1 u2), g1)
              else (Success (Some (setModelFrom b desired data)), g1))
         | (Inl e1, g1) \<Rightarrow>
             (let updatedContext =
                    \<lparr>retry = retry ctx, successfulCalls = Num 0, serverTiming = Undef,
                     operationCompleted = None\<rparr> in
              (processRequestExceptionWithRetryableErrors b (Transport e1) desired
                 updatedContext [''NotFound'', ''ServiceInternalError''] u1 u2, g1))))"

text \<open>\<open>updateHandler\<close>. The entry guard throws outside every \<open>try\<close> block.\<close>

definition updateHandler ::
  "('m, 'd) base \<Rightarrow> 'm \<Rightarrow> callbackContext \<Rightarrow> real \<Rightarrow> real \<Rightarrow> 'd gateway
     \<Rightarrow> 'm outcome \<times> 'd gateway" where
  "updateHandler b desired ctx u1 u2 g =
     (if truthy (retry ctx) \<and> js_gt (retry ctx) (Num maxRetries) then
        (Failed NotStabilized, g)
      else if \<not> truthy (serverTiming ctx) \<and> operationCompleted ctx \<noteq> Some True then
        (case gw_call CallGet g of
           (Inl e1, g1) \<Rightarrow>
             (processRequestExceptionWithRetryableErrors b (Transport e1) desired ctx
                [''ServiceInternalError''] u1 u2, g1)
         | (Inr existing, g1) \<Rightarrow>
             (case gw_call CallUpdate g1 of
                (Inr updated, g2) \<Rightarrow>
                  (let r = js_or (retry ctx) (Num 1) in
                   (InProgress desired
                      \<lparr>retry = r, successfulCalls = Undef, serverTiming = Undef,
                       operationCompleted = Some True\<rparr>
                      (backoff r u1 u2), g2))
              | (Inl e1, g2) \<Rightarrow>
                  (processRequestExceptionWithRetryableErrors b (Transport e1) desired ctx
                     [''NotFound'', ''ServiceInternalError''] u1 u2, g2)))
      else
        (case gw_call CallGet g of
           (Inr getResponse, g1) \<Rightarrow>
             (let observed = getServerTiming getResponse in
              if truthy (serverTiming ctx) \<and> js_lt observed (serverTiming ctx) then
                (InProgress desired
                   \<lparr>retry = js_plus1 (retry ctx), successfulCalls = Undef,
                    serverTiming = observed, operationCompleted = None\<rparr>
                   NoDelay, g1)
              else (Success (Some (setModelFrom b desired getResponse)), g1))
         | (Inl e1, g1) \<Rightarrow>
             (if \<not> truthy (serverTiming ctx) then (Failed NotStabilized, g1)
              else
                (processRequestExceptionWithRetryableErrors b (Transport e1) desired ctx
                   [''ServiceInternalError''] u1 u2, g1))))"

text \<open>
  The \<open>catch\<close> block of the last \<open>try\<close> of \<open>deleteHandler\<close>: a \<open>NotFound\<close> thrown by
  \<open>processRequestExceptionWithRetryableErrors\<close> becomes a success without a model.
\<close>

definition deleteHandler_catch ::
  "('m, 'd) base \<Rightarrow> 'm \<Rightarrow> callbackContext \<Rightarrow> real \<Rightarrow> real \<Rightarrow> thrown \<Rightarrow> 'm outcome" where
  "deleteHandler_catch b desired ctx u1 u2 e1 =
     (let updatedCallbackContext =
            \<lparr>retry = retry ctx, successfulCalls = Undef, serverTiming = Undef,
             operationCompleted = Some True\<rparr> in
      case processRequestExceptionWithRetryableErrors b e1 desired updatedCallbackContext
             [''ServiceInternalError''] u1 u2 of
        Failed e2 \<Rightarrow> (if e2 = NotFound then Success None else Failed e2)
      | response \<Rightarrow> response)"

text \<open>
  The last \<open>try\<close> of \<open>deleteHandler\<close> (the read that verifies the absence). The
  \<open>NotStabilized\<close> of the \<open>else\<close> branch is raised inside the \<open>try\<close> block, so the \<open>catch\<close>
  block receives it like a fault of the read. The delay is computed from
  \<open>callbackContext.retry\<close>, not from the local \<open>retry\<close>.
\<close>

definition deleteHandler_verify ::
  "('m, 'd) base \<Rightarrow> 'm \<Rightarrow> callbackContext \<Rightarrow> real \<Rightarrow> real \<Rightarrow> 'd gateway
     \<Rightarrow> 'm outcome \<times> 'd gateway" where
  "deleteHandler_verify b desired ctx u1 u2 g =
     (case gw_call CallGet g of
        (Inr stillThere, g1) \<Rightarrow>
          (let r = js_or (retry ctx) (Num 1) in
           if js_le r (Num maxRetries) then
             (InProgress desired
                \<lparr>retry = js_plus1 r, successfulCalls = Undef, serverTiming = Undef,
                 operationCompleted = Some True\<rparr>
                (backoff (retry ctx) u1 u2), g1)
           else (deleteHandler_catch b desired ctx u1 u2 (Raised NotStabilized), g1))
      | (Inl e1, g1) \<Rightarrow> (deleteHandler_catch b desired ctx u1 u2 (Transport e1), g1))"

definition deleteHandler ::
  "('m, 'd) base \<Rightarrow> 'm \<Rightarrow> callbackContext \<Rightarrow> real \<Rightarrow> real \<Rightarrow> 'd gateway
     \<Rightarrow> 'm outcome \<times> 'd gateway" where
  "deleteHandler b desired ctx u1 u2 g =
     (if operationCompleted ctx \<noteq> Some True then
        (case gw_call CallGet g of
           (Inl e1, g1) \<Rightarrow>
             (processRequestExceptionWithRetryableErrors b (Transport e1) desired ctx
                [''ServiceInternalError''] u1 u2, g1)
         | (Inr existing, g1) \<Rightarrow>
             (case gw_call CallDelete g1 of
                (Inl e1, g2) \<Rightarrow>
                  (processRequestExceptionWithRetryableErrors b (Transport e1) desired ctx
                     [''NotFound'', ''ServiceInternalError''] u1 u2, g2)
              | (Inr deleted, g2) \<Rightarrow> deleteHandler_verify b desired ctx u1 u2 g2))
      else deleteHandler_verify b desired ctx u1 u2 g)"

section \<open>A classifier and a scripted gateway for concrete runs\<close>

text \<open>
  Modelled from the spec: \<open>processRequestException\<close> of the absent base class. Section 4.4:
  "HTTP 404 gives NotFound; HTTP 409/duplicate semantics gives AlreadyExists; HTTP 5xx or
  a vendor code indicating internal failure gives ServiceInternalError; all else gives
  Other". An exception that the handler raised itself carries neither a status nor a
  vendor code, so it falls under "all else".
\<close>

definition specClassifier :: "thrown \<Rightarrow> exn option" where
  "specClassifier e =
     (case e of
        Raised x \<Rightarrow> Some (OtherError ''Other'')
      | Transport f \<Rightarrow>
          Some (if status f = Some 404 then NotFound
                else if status f = Some 409 then AlreadyExists
                else if vendorInternal f then ServiceInternalError
                else (case status f of
                        None \<Rightarrow> OtherError ''Other''
                      | Some s \<Rightarrow> if 500 \<le> s \<and> s \<le> 599 then ServiceInternalError
                                  else OtherError ''Other'')))"

text \<open>A resource whose models are the payloads themselves.\<close>

definition specBase :: "(nat, nat) base" where
  "specBase = \<lparr>processRequestException = specClassifier, ingest = (\<lambda>model d. d)\<rparr>"

definition httpFault :: "int \<Rightarrow> fault" where
  "httpFault s = \<lparr>status = Some s, vendorInternal = False\<rparr>"

definition okResponse :: "nat \<Rightarrow> int \<Rightarrow> nat response" where
  "okResponse d t = \<lparr>payload = Some d, timing = Num t\<rparr>"

text \<open>A gateway that answers its requests from a list, and with HTTP 404 after that.\<close>

definition scripted :: "(fault + nat response) list \<Rightarrow> nat gateway" where
  "scripted rs = \<lparr>answer = (\<lambda>k. if k < length rs then rs ! k else Inl (httpFault 404)),
                  issued = []\<rparr>"


section \<open>Facts about the helpers\<close>

lemmas js_defs = js_or_def js_lt_def js_le_def js_gt_def js_plus1_def pow2_floor_half_def
  pow2_def backoff_def maxRetries_def stabilizationRetries_def

lemmas run_defs = emptyContext_def scripted_def gw_call_def okResponse_def httpFault_def
  specBase_def specClassifier_def setModelFrom_def getServerTiming_def
  processRequestExceptionWithRetryableErrors_def

text \<open>On numbers the operators are the arithmetic ones.\<close>

lemma js_num_simps:
  "js_lt (Num a) (Num b) = (a < b)"
  "js_le (Num a) (Num b) = (a \<le> b)"
  "js_gt (Num a) (Num b) = (b < a)"
  "js_plus1 (Num a) = Num (a + 1)"
  "js_plus1 Undef = NaN"
  by (simp_all add: js_lt_def js_le_def js_gt_def js_plus1_def)

text \<open>\<open>callbackContext.retry || 1\<close> is always a non-zero number.\<close>

lemma js_or_retry_num: "\<exists>k. js_or r (Num 1) = Num k \<and> k \<noteq> 0"
  by (cases r) (simp_all add: js_or_def)

lemma pow2_powr: "pow2 k = 2 powr (real_of_int k)"
proof (cases "0 \<le> k")
  case True
  then show ?thesis by (simp add: pow2_def powr_realpow [symmetric])
next
  case False
  then have "real_of_int k = - real (nat (- k))" by simp
  then have "2 powr (real_of_int k) = 1 / 2 ^ nat (- k)"
    by (simp only: powr_minus_divide powr_realpow zero_less_numeral)
  with False show ?thesis by (simp add: pow2_def)
qed

lemma pow2_pos: "0 < pow2 k"
  by (simp add: pow2_powr)

lemma pow2_mono: "a \<le> b \<Longrightarrow> pow2 a \<le> pow2 b"
  by (simp add: pow2_powr)

text \<open>
  Where the counter is a number, the delay is \<open>2 ^ floor (n / 2)\<close> times the two random
  factors; with factors in \<open>[0, 1)\<close> it lies between \<open>0\<close> and \<open>2 ^ floor (n / 2)\<close>, and for
  fixed factors it grows with \<open>n\<close>.
\<close>

lemma backoff_num: "backoff (Num n) u1 u2 = Seconds (pow2 (n div 2) * u1 * u2)"
  by (simp add: backoff_def pow2_floor_half_def)

lemma backoff_bounds:
  assumes "0 \<le> u1" "u1 < 1" "0 \<le> u2" "u2 < 1"
  shows "0 \<le> pow2 (n div 2) * u1 * u2" and "pow2 (n div 2) * u1 * u2 \<le> pow2 (n div 2)"
proof -
  have p: "0 < pow2 (n div 2)" by (rule pow2_pos)
  show "0 \<le> pow2 (n div 2) * u1 * u2" using p assms by simp
  have "u1 * u2 \<le> 1 * 1" using assms by (intro mult_mono) simp_all
  then have "pow2 (n div 2) * (u1 * u2) \<le> pow2 (n div 2) * 1"
    using p by (intro mult_left_mono) simp_all
  then show "pow2 (n div 2) * u1 * u2 \<le> pow2 (n div 2)" by (simp add: mult.assoc)
qed

lemma backoff_mono:
  assumes "0 \<le> u1" "0 \<le> u2" "n \<le> m"
  shows "pow2 (n div 2) * u1 * u2 \<le> pow2 (m div 2) * u1 * u2"
proof -
  have "n div 2 \<le> m div 2" using assms(3) by (simp add: zdiv_mono1)
  then have "pow2 (n div 2) \<le> pow2 (m div 2)" by (rule pow2_mono)
  then show ?thesis using assms(1,2) by (simp add: mult_right_mono)
qed

text \<open>The two ways out of \<open>processRequestExceptionWithRetryableErrors\<close> after a throw.\<close>

lemma retryable_event:
  assumes "processRequestException b e = Some x" and "errorCode x \<in> set retryableErrorsList"
  shows "processRequestExceptionWithRetryableErrors b e model ctx retryableErrorsList u1 u2 =
           InProgress model
             \<lparr>retry = js_or (retry ctx) (Num 1), successfulCalls = Undef, serverTiming = Undef,
              operationCompleted = None\<rparr>
             (backoff (js_or (retry ctx) (Num 1)) u1 u2)"
  using assms by (simp add: processRequestExceptionWithRetryableErrors_def Let_def)

lemma terminal_event:
  assumes "processRequestException b e = Some x" and "errorCode x \<notin> set retryableErrorsList"
  shows "processRequestExceptionWithRetryableErrors b e model ctx retryableErrorsList u1 u2 =
           Failed x"
  using assms by (simp add: processRequestExceptionWithRetryableErrors_def)

text \<open>
  An exception raised inside a \<open>try\<close> block reaches the host only through
  \<open>processRequestException\<close>. On a first invocation of Create whose read finds the
  resource, the read is the only request and the outcome is what
  \<open>processRequestExceptionWithRetryableErrors\<close> makes of the \<open>AlreadyExists\<close>; in Delete,
  past the retry limit, the \<open>catch\<close> block decides on the \<open>NotStabilized\<close>.
\<close>

lemma create_existing_resource_routed:
  assumes "\<not> truthy (retry ctx)" and "answer g (length (issued g)) = Inr existing"
  shows "createHandler b desired ctx u1 u2 g =
           (processRequestExceptionWithRetryableErrors b (Raised AlreadyExists) desired ctx
              [''ServiceInternalError''] u1 u2,
            g\<lparr>issued := issued g @ [CallGet]\<rparr>)"
  using assms by (simp add: createHandler_def gw_call_def Let_def)

lemma delete_verify_past_limit_routed:
  assumes "answer g (length (issued g)) = Inr stillThere"
    and "js_or (retry ctx) (Num 1) = Num k" and "10 < k"
  shows "deleteHandler_verify b desired ctx u1 u2 g =
           (deleteHandler_catch b desired ctx u1 u2 (Raised NotStabilized),
            g\<lparr>issued := issued g @ [CallGet]\<rparr>)"
  using assms
  by (simp add: deleteHandler_verify_def gw_call_def js_le_def maxRetries_def Let_def)

text \<open>
  The verification read of Delete, whether \<open>deleteHandler\<close> starts with it
  (\<open>operationCompleted\<close> set) or reaches it after the delete call: a fault classified as
  \<open>NotFound\<close> gives \<open>Success\<close>; a resource still present gives \<open>InProgress\<close> with the retry
  count \<open>(callbackContext.retry || 1) + 1\<close> while that count is at most 10.
\<close>

lemma deleteHandler_completed:
  "operationCompleted ctx = Some True \<Longrightarrow>
     deleteHandler b desired ctx u1 u2 g = deleteHandler_verify b desired ctx u1 u2 g"
  by (simp add: deleteHandler_def)

lemma deleteHandler_after_delete:
  assumes "operationCompleted ctx \<noteq> Some True"
    and "answer g (length (issued g)) = Inr existing"
    and "answer g (Suc (length (issued g))) = Inr deleted"
  shows "deleteHandler b desired ctx u1 u2 g =
           deleteHandler_verify b desired ctx u1 u2 (g\<lparr>issued := issued g @ [CallGet, CallDelete]\<rparr>)"
  using assms by (simp add: deleteHandler_def gw_call_def)

lemma delete_verify_not_found:
  assumes "answer g (length (issued g)) = Inl f"
    and "processRequestException b (Transport f) = Some NotFound"
  shows "deleteHandler_verify b desired ctx u1 u2 g =
           (Success None, g\<lparr>issued := issued g @ [CallGet]\<rparr>)"
  using assms
  by (simp add: deleteHandler_verify_def deleteHandler_catch_def gw_call_def
      processRequestExceptionWithRetryableErrors_def)

lemma delete_verify_still_present:
  assumes "answer g (length (issued g)) = Inr stillThere"
    and "js_or (retry ctx) (Num 1) = Num k" and "k \<le> 10"
  shows "deleteHandler_verify b desired ctx u1 u2 g =
           (InProgress desired
              \<lparr>retry = Num (k + 1), successfulCalls = Undef, serverTiming = Undef,
               operationCompleted = Some True\<rparr>
              (backoff (retry ctx) u1 u2),
            g\<lparr>issued := issued g @ [CallGet]\<rparr>)"
  using assms
  by (simp add: deleteHandler_verify_def gw_call_def js_le_def js_plus1_def maxRetries_def
      Let_def)

section \<open>The retry limit\<close>

text \<open>
  C1: past the retry limit every handler should fail with \<open>NotStabilized\<close>; in particular
  a stabilization read of Create that arrives with \<open>retry > 10\<close> and fewer than five
  successful calls. The code has no such branch in Create: with \<open>retry = 11\<close> and
  \<open>successfulCalls = 0\<close> a read that succeeds leaves the \<open>if\<close> and the handler returns
  \<open>Success\<close>.
\<close>

theorem create_past_retry_limit_succeeds:
  "createHandler specBase 0
     \<lparr>retry = Num 11, successfulCalls = Num 0, serverTiming = Undef,
      operationCompleted = None\<rparr>
     (1 / 2) (1 / 4) (scripted [Inr (okResponse 7 0)])
   = (Success (Some 7),
      \<lparr>answer = answer (scripted [Inr (okResponse 7 0)]), issued = [CallGet]\<rparr>)"
  by (simp add: createHandler_def js_defs run_defs)

text \<open>
  C8: Update called with a \<open>retry\<close> above 10 fails with \<open>NotStabilized\<close> whatever the rest
  of the context says, and the gateway is left as it was: no request is made.
\<close>

theorem update_entry_guard:
  assumes "retry ctx = Num n" and "10 < n"
  shows "updateHandler b desired ctx u1 u2 g = (Failed NotStabilized, g)"
  using assms by (simp add: updateHandler_def js_gt_def maxRetries_def)

text \<open>The guard at \<open>retry = 11\<close>, on a gateway whose next read would succeed.\<close>

theorem update_entry_guard_witness:
  "retry (emptyContext\<lparr>retry := Num 11\<rparr>) = Num 11 \<and> (10::int) < 11
   \<and> updateHandler specBase 0 (emptyContext\<lparr>retry := Num 11\<rparr>) (1 / 2) (1 / 4)
       (scripted [Inr (okResponse 7 0)])
     = (Failed NotStabilized, scripted [Inr (okResponse 7 0)])"
  using update_entry_guard [of "emptyContext\<lparr>retry := Num 11\<rparr>" 11 specBase 0 "1 / 2" "1 / 4"
      "scripted [Inr (okResponse 7 0)]"]
  by (simp add: emptyContext_def)

section \<open>Create\<close>

text \<open>
  C2: after the create call, Create should succeed exactly after five consecutive
  successful reads, each read adding one to \<open>successfulCalls\<close>. The code adds one to
  \<open>callbackContext.successfulCalls\<close>, not to the local \<open>successfulCalls\<close> that defaults to
  \<open>0\<close>: the first stabilization read, with the context \<open>{retry: 1}\<close> that Create returned,
  stores NaN; a read that finds NaN stores NaN again; a read that finds \<open>null\<close> stores 1.
\<close>

theorem create_first_stabilizing_read_counts_NaN:
  "fst (createHandler specBase 0
          \<lparr>retry = Num 1, successfulCalls = Undef, serverTiming = Undef,
           operationCompleted = None\<rparr>
          (1 / 2) (1 / 4) (scripted [Inr (okResponse 7 0)]))
     = InProgress 0
         \<lparr>retry = Num 1, successfulCalls = NaN, serverTiming = Undef,
          operationCompleted = None\<rparr>
         (Seconds (1 / 8))
   \<and> fst (createHandler specBase 0
          \<lparr>retry = Num 1, successfulCalls = NaN, serverTiming = Undef,
           operationCompleted = None\<rparr>
          (1 / 2) (1 / 4) (scripted [Inr (okResponse 7 0)]))
     = InProgress 0
         \<lparr>retry = Num 1, successfulCalls = NaN, serverTiming = Undef,
          operationCompleted = None\<rparr>
         (Seconds (1 / 8))
   \<and> fst (createHandler specBase 0
          \<lparr>retry = Num 1, successfulCalls = Null, serverTiming = Undef,
           operationCompleted = None\<rparr>
          (1 / 2) (1 / 4) (scripted [Inr (okResponse 7 0)]))
     = InProgress 0
         \<lparr>retry = Num 1, successfulCalls = Num 1, serverTiming = Undef,
          operationCompleted = None\<rparr>
         (Seconds (1 / 8))"
  by (simp add: createHandler_def js_defs run_defs)

text \<open>
  C4: a retryable fault of the absence check should lead back to the absence check. The
  first invocation (empty context, the read fails with HTTP 503) returns \<open>InProgress\<close>
  with \<open>retry = 1\<close>; called again with that context, the handler takes the stabilization
  branch: one read, which here finds nothing (HTTP 404), and no create call, although
  the gateway would have accepted one.
\<close>

theorem create_retry_after_absence_fault_skips_create:
  "createHandler specBase 0 emptyContext (1 / 2) (1 / 4) (scripted [Inl (httpFault 503)])
     = (InProgress 0
          \<lparr>retry = Num 1, successfulCalls = Undef, serverTiming = Undef,
           operationCompleted = None\<rparr>
          (Seconds (1 / 8)),
        \<lparr>answer = answer (scripted [Inl (httpFault 503)]), issued = [CallGet]\<rparr>)
   \<and> createHandler specBase 0
       \<lparr>retry = Num 1, successfulCalls = Undef, serverTiming = Undef,
        operationCompleted = None\<rparr>
       (1 / 2) (1 / 4) (scripted [Inl (httpFault 404), Inr (okResponse 7 0)])
     = (InProgress 0
          \<lparr>retry = Num 1, successfulCalls = Undef, serverTiming = Undef,
           operationCompleted = None\<rparr>
          (Seconds (1 / 8)),
        \<lparr>answer = answer (scripted [Inl (httpFault 404), Inr (okResponse 7 0)]),
         issued = [CallGet]\<rparr>)"
  by (simp add: createHandler_def js_defs run_defs)


section \<open>Update\<close>

text \<open>
  C5, as the claim states it: a stored \<open>serverTiming\<close> of 5 and an observed marker of 5,
  which is not strictly greater, should give \<open>InProgress\<close>. The handler returns \<open>Success\<close>:
  it waits only while the observed marker is strictly smaller than the stored one.
\<close>

theorem update_equal_marker_succeeds:
  "serverTiming \<lparr>retry = Num 2, successfulCalls = Undef, serverTiming = Num 5,
                 operationCompleted = None\<rparr> = Num 5
   \<and> getServerTiming (okResponse 7 5) = Num 5
   \<and> \<not> js_gt (getServerTiming (okResponse 7 5)) (Num 5)
   \<and> fst (updateHandler specBase 0
            \<lparr>retry = Num 2, successfulCalls = Undef, serverTiming = Num 5,
             operationCompleted = None\<rparr>
            (1 / 2) (1 / 4) (scripted [Inr (okResponse 7 5)])) = Success (Some 7)"
  by (simp add: updateHandler_def js_defs run_defs)

text \<open>
  C5, amended: in the verification phase of Update (the entry guard passed, and
  \<open>serverTiming\<close> or \<open>operationCompleted\<close> is set), when the read succeeds: if a non-zero
  \<open>serverTiming\<close> is stored and the observed marker is strictly smaller than it, the
  handler returns \<open>InProgress\<close> with the observed marker stored, \<open>retry + 1\<close> as the retry
  count and no delay set; in every other case (the observed marker is equal or greater,
  one of the two is not a number, or no \<open>serverTiming\<close> is stored) it returns \<open>Success\<close> with
  the model merged from the response.
\<close>

theorem update_verify_timing:
  assumes guard: "\<not> (truthy (retry ctx) \<and> js_gt (retry ctx) (Num maxRetries))"
    and phase: "truthy (serverTiming ctx) \<or> operationCompleted ctx = Some True"
    and read: "answer g (length (issued g)) = Inr getResponse"
  shows "fst (updateHandler b desired ctx u1 u2 g) =
           (if truthy (serverTiming ctx)
               \<and> js_lt (getServerTiming getResponse) (serverTiming ctx)
            then InProgress desired
                   \<lparr>retry = js_plus1 (retry ctx), successfulCalls = Undef,
                    serverTiming = getServerTiming getResponse, operationCompleted = None\<rparr>
                   NoDelay
            else Success (Some (setModelFrom b desired getResponse)))"
  using assms by (auto simp add: updateHandler_def gw_call_def Let_def)

text \<open>A stored marker of 5, an observed marker of 3, \<open>retry = 2\<close>: wait, with \<open>retry = 3\<close>.\<close>

theorem update_verify_timing_witness:
  "\<not> (truthy (Num 2) \<and> js_gt (Num 2) (Num maxRetries)) \<and> truthy (Num 5)
   \<and> answer (scripted [Inr (okResponse 7 3)])
        (length (issued (scripted [Inr (okResponse 7 3)]))) = Inr (okResponse 7 3)
   \<and> fst (updateHandler specBase 0
            \<lparr>retry = Num 2, successfulCalls = Undef, serverTiming = Num 5,
             operationCompleted = None\<rparr>
            (1 / 2) (1 / 4) (scripted [Inr (okResponse 7 3)]))
       = InProgress 0
           \<lparr>retry = Num 3, successfulCalls = Undef, serverTiming = Num 3,
            operationCompleted = None\<rparr>
           NoDelay"
  using update_verify_timing
    [of "\<lparr>retry = Num 2, successfulCalls = Undef, serverTiming = Num 5,
          operationCompleted = None\<rparr>"
        "scripted [Inr (okResponse 7 3)]" "okResponse 7 3" specBase 0 "1 / 2" "1 / 4"]
  by (simp add: js_defs run_defs)

text \<open>
  C10, as the claim states it: an Update in the verification phase, with
  \<open>operationCompleted\<close> set, whose read fails with a fault classified as
  \<open>ServiceInternalError\<close>, should be invoked again. With the context that Update itself
  returned after the update call (no \<open>serverTiming\<close>) the handler fails with
  \<open>NotStabilized\<close> instead, without classifying the fault.
\<close>

theorem update_verify_fault_without_marker:
  "processRequestException specBase (Transport (httpFault 503)) = Some ServiceInternalError
   \<and> updateHandler specBase 0
       \<lparr>retry = Num 1, successfulCalls = Undef, serverTiming = Undef,
        operationCompleted = Some True\<rparr>
       (1 / 2) (1 / 4) (scripted [Inl (httpFault 503)])
     = (Failed NotStabilized,
        \<lparr>answer = answer (scripted [Inl (httpFault 503)]), issued = [CallGet]\<rparr>)"
  by (simp add: updateHandler_def js_defs run_defs)

text \<open>
  C10, amended: when \<open>processRequestExceptionWithRetryableErrors\<close> handles a fault whose
  error code is in the list, the context of the \<open>InProgress\<close> it returns holds the retry
  count alone (the incoming one if that is a non-zero number, 1 otherwise), whatever else
  the incoming context held. So an Update in the verification phase whose context holds
  a non-zero \<open>serverTiming\<close>, and whose read fails with a fault classified as
  \<open>ServiceInternalError\<close>, returns a context without \<open>serverTiming\<close> and
  \<open>operationCompleted\<close>; called with that context on a gateway that answers, the handler
  reads and issues the update call again. When the context holds \<open>operationCompleted\<close>
  and no \<open>serverTiming\<close>, a verification read that fails, with whatever fault, makes the
  handler fail with \<open>NotStabilized\<close>; the read is the only request it made, if the entry
  guard let it make one.
\<close>

theorem retryable_fault_keeps_only_retry:
  assumes classified: "processRequestException b e = Some x"
    and retryable: "errorCode x \<in> set retryableErrorsList"
    and internal: "processRequestException b (Transport f) = Some ServiceInternalError"
    and guard: "\<not> (truthy (retry ctx) \<and> js_gt (retry ctx) (Num maxRetries))"
    and marker: "truthy (serverTiming ctx)"
    and read: "answer g (length (issued g)) = Inl f"
    and again_get: "answer g2 (length (issued g2)) = Inr r1"
    and again_update: "answer g2 (Suc (length (issued g2))) = Inr r2"
    and no_marker: "\<not> truthy (serverTiming ctx0)"
    and completed: "operationCompleted ctx0 = Some True"
    and read0: "answer g0 (length (issued g0)) = Inl f0"
  shows "processRequestExceptionWithRetryableErrors b e model c retryableErrorsList u1 u2 =
           InProgress model
             \<lparr>retry = js_or (retry c) (Num 1), successfulCalls = Undef,
              serverTiming = Undef, operationCompleted = None\<rparr>
             (backoff (js_or (retry c) (Num 1)) u1 u2)
       \<and> fst (updateHandler b desired ctx u1 u2 g) =
           InProgress desired
             \<lparr>retry = js_or (retry ctx) (Num 1), successfulCalls = Undef,
              serverTiming = Undef, operationCompleted = None\<rparr>
             (backoff (js_or (retry ctx) (Num 1)) u1 u2)
       \<and> issued (snd (updateHandler b desired
             \<lparr>retry = js_or (retry ctx) (Num 1), successfulCalls = Undef,
              serverTiming = Undef, operationCompleted = None\<rparr> u3 u4 g2))
           = issued g2 @ [CallGet, CallUpdate]
       \<and> updateHandler b desired ctx0 u1 u2 g0 =
           (Failed NotStabilized,
            if truthy (retry ctx0) \<and> js_gt (retry ctx0) (Num maxRetries) then g0
            else g0\<lparr>issued := issued g0 @ [CallGet]\<rparr>)"
proof (intro conjI)
  show "processRequestExceptionWithRetryableErrors b e model c retryableErrorsList u1 u2 =
           InProgress model
             \<lparr>retry = js_or (retry c) (Num 1), successfulCalls = Undef,
              serverTiming = Undef, operationCompleted = None\<rparr>
             (backoff (js_or (retry c) (Num 1)) u1 u2)"
    using classified retryable by (rule retryable_event)
next
  have "processRequestExceptionWithRetryableErrors b (Transport f) desired ctx
          [''ServiceInternalError''] u1 u2 =
        InProgress desired
          \<lparr>retry = js_or (retry ctx) (Num 1), successfulCalls = Undef,
           serverTiming = Undef, operationCompleted = None\<rparr>
          (backoff (js_or (retry ctx) (Num 1)) u1 u2)"
    using retryable_event [OF internal, of "[''ServiceInternalError'']"] by simp
  then show "fst (updateHandler b desired ctx u1 u2 g) =
           InProgress desired
             \<lparr>retry = js_or (retry ctx) (Num 1), successfulCalls = Undef,
              serverTiming = Undef, operationCompleted = None\<rparr>
             (backoff (js_or (retry ctx) (Num 1)) u1 u2)"
    using guard marker read by (simp add: updateHandler_def gw_call_def)
next
  have within: "\<not> js_gt (js_or (retry ctx) (Num 1)) (Num maxRetries)"
    using guard
    by (cases "truthy (retry ctx)") (simp_all add: js_or_def js_gt_def maxRetries_def)
  show "issued (snd (updateHandler b desired
             \<lparr>retry = js_or (retry ctx) (Num 1), successfulCalls = Undef,
              serverTiming = Undef, operationCompleted = None\<rparr> u3 u4 g2))
           = issued g2 @ [CallGet, CallUpdate]"
    using within again_get again_update
    by (simp add: updateHandler_def gw_call_def Let_def)
next
  show "updateHandler b desired ctx0 u1 u2 g0 =
           (Failed NotStabilized,
            if truthy (retry ctx0) \<and> js_gt (retry ctx0) (Num maxRetries) then g0
            else g0\<lparr>issued := issued g0 @ [CallGet]\<rparr>)"
    using no_marker completed read0 by (simp add: updateHandler_def gw_call_def)
qed

text \<open>
  An Update with \<open>retry = 2\<close>, a stored marker and \<open>operationCompleted\<close>, whose read fails
  with HTTP 503, and the next invocation on a gateway that answers; an Update with
  \<open>retry = 1\<close>, \<open>operationCompleted\<close> and no marker, whose read fails with HTTP 503.
\<close>

theorem retryable_fault_keeps_only_retry_witness:
  "processRequestException specBase (Transport (httpFault 503)) = Some ServiceInternalError
   \<and> fst (updateHandler specBase 0
            \<lparr>retry = Num 2, successfulCalls = Undef, serverTiming = Num 5,
             operationCompleted = Some True\<rparr>
            (1 / 2) (1 / 4) (scripted [Inl (httpFault 503)]))
       = InProgress 0
           \<lparr>retry = Num 2, successfulCalls = Undef, serverTiming = Undef,
            operationCompleted = None\<rparr>
           (Seconds (1 / 4))
   \<and> issued (snd (updateHandler specBase 0
            \<lparr>retry = Num 2, successfulCalls = Undef, serverTiming = Undef,
             operationCompleted = None\<rparr>
            (1 / 2) (1 / 4) (scripted [Inr (okResponse 7 0), Inr (okResponse 7 0)])))
       = [CallGet, CallUpdate]
   \<and> fst (updateHandler specBase 0
            \<lparr>retry = Num 1, successfulCalls = Undef, serverTiming = Undef,
             operationCompleted = Some True\<rparr>
            (1 / 2) (1 / 4) (scripted [Inl (httpFault 503)])) = Failed NotStabilized
   \<and> issued (snd (updateHandler specBase 0
            \<lparr>retry = Num 1, successfulCalls = Undef, serverTiming = Undef,
             operationCompleted = Some True\<rparr>
            (1 / 2) (1 / 4) (scripted [Inl (httpFault 503)]))) = [CallGet]"
proof -
  let ?marked = "\<lparr>retry = Num 2, successfulCalls = Undef, serverTiming = Num 5,
               operationCompleted = Some True\<rparr>"
  let ?unmarked = "\<lparr>retry = Num 1, successfulCalls = Undef, serverTiming = Undef,
                operationCompleted = Some True\<rparr>"
  let ?failing = "scripted [Inl (httpFault 503)]"
  let ?answering = "scripted [Inr (okResponse 7 0), Inr (okResponse 7 0)]"
  have h1: "processRequestException specBase (Transport (httpFault 503))
              = Some ServiceInternalError"
    by (simp add: run_defs)
  have h2: "errorCode ServiceInternalError \<in> set [''ServiceInternalError'']" by simp
  have h3: "\<not> (truthy (retry ?marked) \<and> js_gt (retry ?marked) (Num maxRetries))"
    by (simp add: js_defs)
  have h4: "truthy (serverTiming ?marked)" by simp
  have h5: "answer ?failing (length (issued ?failing)) = Inl (httpFault 503)"
    by (simp add: scripted_def)
  have h6: "answer ?answering (length (issued ?answering)) = Inr (okResponse 7 0)"
    by (simp add: scripted_def)
  have h7: "answer ?answering (Suc (length (issued ?answering))) = Inr (okResponse 7 0)"
    by (simp add: scripted_def)
  have h8: "issued ?answering = []" by (simp add: scripted_def)
  have h9: "\<not> truthy (serverTiming ?unmarked)" by simp
  have h10: "operationCompleted ?unmarked = Some True" by simp
  have h11: "issued ?failing = []" by (simp add: scripted_def)
  have h12: "\<not> (truthy (retry ?unmarked) \<and> js_gt (retry ?unmarked) (Num maxRetries))"
    by (simp add: js_defs)
  have r: "js_or (retry ?marked) (Num 1) = Num 2" by (simp add: js_or_def)
  have d: "backoff (Num 2) (1 / 2) (1 / 4) = Seconds (1 / 4)" by (simp add: js_defs)
  from retryable_fault_keeps_only_retry
         [OF h1 h2 h1 h3 h4 h5 h6 h7 h9 h10 h5,
          of 0 ?marked "1 / 2" "1 / 4" 0 "1 / 2" "1 / 4"] h1 r d h8 h11 h12
  show ?thesis by simp
qed

section \<open>Delete\<close>

text \<open>
  C3: a context returned with \<open>InProgress\<close> should keep \<open>operationCompleted\<close> once it is
  set. Delete in the verification phase (\<open>retry = 2\<close>, \<open>operationCompleted\<close> set), whose
  read fails with HTTP 503, builds \<open>updatedCallbackContext\<close> with \<open>operationCompleted:
  true\<close> and hands it to \<open>processRequestExceptionWithRetryableErrors\<close>, which returns a
  context holding \<open>retry\<close> alone.
\<close>

theorem delete_retryable_fault_forgets_operationCompleted:
  "fst (deleteHandler specBase 0
          \<lparr>retry = Num 2, successfulCalls = Undef, serverTiming = Undef,
           operationCompleted = Some True\<rparr>
          (1 / 2) (1 / 4) (scripted [Inl (httpFault 503)]))
     = InProgress 0
         \<lparr>retry = Num 2, successfulCalls = Undef, serverTiming = Undef,
          operationCompleted = None\<rparr>
         (Seconds (1 / 4))"
  by (simp add: deleteHandler_def deleteHandler_verify_def deleteHandler_catch_def
      js_defs run_defs)

text \<open>
  C9: every delay should be \<open>2 ^ floor (retry / 2)\<close> times two random factors, hence
  non-negative. On the first invocation of Delete (empty context) with the resource
  still present after the delete call, the retry count is the local \<open>retry = 1\<close>, but
  the delay is computed from \<open>callbackContext.retry\<close>, which is undefined: the delay is
  NaN.
\<close>

theorem delete_first_verification_delay_NaN:
  "deleteHandler specBase 0 emptyContext (1 / 2) (1 / 4)
     (scripted [Inr (okResponse 7 0), Inr (okResponse 7 0), Inr (okResponse 7 0)])
   = (InProgress 0
        \<lparr>retry = Num 2, successfulCalls = Undef, serverTiming = Undef,
         operationCompleted = Some True\<rparr>
        NaNDelay,
      \<lparr>answer = answer (scripted [Inr (okResponse 7 0), Inr (okResponse 7 0),
                                   Inr (okResponse 7 0)]),
       issued = [CallGet, CallDelete, CallGet]\<rparr>)"
  by (simp add: deleteHandler_def deleteHandler_verify_def deleteHandler_catch_def
      js_defs run_defs)


end
